theory Spec2Isabelle
  imports Main "HOL-Library.AList"
begin

section \<open>Values\<close>

text \<open>
  Raw (wire) values and application values share one representation: JSON values, the
  JavaScript \<open>undefined\<close> that a missing property reads as, and \<open>Date\<close> objects.
  \<open>VDate s\<close> stands for \<open>new Date(s)\<close>, the date built from the wire string \<open>s\<close>.
  An object is the list of its properties in insertion order.
\<close>

datatype val =
    VUndefined
  | VNull
  | VBool bool
  | VNum int
  | VStr string
  | VDate string
  | VArr "val list"
  | VObj "(string \<times> val) list"

text \<open>Reading a property: \<open>data[key]\<close> is \<open>undefined\<close> when the key is absent.\<close>

definition get :: "(string \<times> val) list \<Rightarrow> string \<Rightarrow> val" where
  "get data k = (case map_of data k of None \<Rightarrow> VUndefined | Some v \<Rightarrow> v)"

text \<open>
  Object spread \<open>{...a, ...b}\<close>: the properties of \<open>a\<close>, each overwritten in place by the
  property of \<open>b\<close> with the same key, followed by the remaining properties of \<open>b\<close>.
\<close>

definition spread :: "('k \<times> 'v) list \<Rightarrow> ('k \<times> 'v) list \<Rightarrow> ('k \<times> 'v) list" where
  "spread a b = fold (\<lambda>(k, v). AList.update k v) b a"

text \<open>\<open>flow(f, g, ...)\<close> of lodash/fp: left-to-right composition.\<close>

definition flow :: "('a \<Rightarrow> 'a) list \<Rightarrow> 'a \<Rightarrow> 'a" where
  "flow fs x = fold (\<lambda>f. f) fs x"

text \<open>
  The guards \<open>!n ? x : f(n)\<close> and \<open>n === undefined ? x : f(n)\<close> on an optional number:
  the first also skips \<open>f\<close> when \<open>n\<close> is \<open>0\<close>.
\<close>

definition unlessFalsy :: "int option \<Rightarrow> (int \<Rightarrow> 'a \<Rightarrow> 'a) \<Rightarrow> 'a \<Rightarrow> 'a" where
  "unlessFalsy n f x = (case n of None \<Rightarrow> x | Some k \<Rightarrow> if k = 0 then x else f k x)"

definition unlessUndefined :: "int option \<Rightarrow> (int \<Rightarrow> 'a \<Rightarrow> 'a) \<Rightarrow> 'a \<Rightarrow> 'a" where
  "unlessUndefined n f x = (case n of None \<Rightarrow> x | Some k \<Rightarrow> f k x)"

section \<open>The validation library\<close>

text \<open>
  The parsers are schemas of the zod library, an external collaborator. The fragment the
  builders use is modelled by its documented behaviour: \<open>z.never()\<close>, \<open>z.boolean()\<close>,
  \<open>z.string()\<close>, \<open>z.literal(s)\<close>, \<open>z.string().transform((v) => new Date(v))\<close>,
  \<open>.optional()\<close>, \<open>z.object(shape)\<close> (unknown keys stripped), \<open>z.array(element)\<close> with its
  minimum and maximum length, and \<open>z.union(options)\<close>. A failed parse throws the library's
  one error, the \<open>ValidationError\<close> of the specification; its list of issues is not
  modelled.
\<close>

datatype error = ValidationError

datatype zod =
    ZNever
  | ZBoolean
  | ZString
  | ZLiteral string
  | ZDateTime
  | ZOptional zod
  | ZObject "(string \<times> zod) list"
  | ZArray zod "int option" "int option"
  | ZUnion "zod list"

text \<open>All results when every parse succeeded, the error otherwise.\<close>

fun sequence :: "(error + 'a) list \<Rightarrow> error + 'a list" where
  "sequence [] = Inr []"
| "sequence (Inl e # rs) = Inl e"
| "sequence (Inr x # rs) = (case sequence rs of Inl e \<Rightarrow> Inl e | Inr xs \<Rightarrow> Inr (x # xs))"

text \<open>A union returns the result of the first option that is valid.\<close>

fun firstValid :: "(error + 'a) list \<Rightarrow> error + 'a" where
  "firstValid [] = Inl ValidationError"
| "firstValid (Inr x # rs) = Inr x"
| "firstValid (Inl e # rs) = firstValid rs"

definition lengthOk :: "int option \<Rightarrow> int option \<Rightarrow> nat \<Rightarrow> bool" where
  "lengthOk minLength maxLength n =
     ((case minLength of None \<Rightarrow> True | Some m \<Rightarrow> m \<le> int n) \<and>
      (case maxLength of None \<Rightarrow> True | Some m \<Rightarrow> int n \<le> m))"

text \<open>
  \<open>schema.parse(v)\<close>. An object schema parses \<open>data[key]\<close> for every key of its shape, in
  the order of the shape. Its output has the key when the result is not \<open>undefined\<close> or the
  input has the key (\<open>key in data\<close>).
\<close>

fun zod_parse :: "zod \<Rightarrow> val \<Rightarrow> error + val" where
  "zod_parse ZNever v = Inl ValidationError"
| "zod_parse ZBoolean v = (case v of VBool b \<Rightarrow> Inr v | _ \<Rightarrow> Inl ValidationError)"
| "zod_parse ZString v = (case v of VStr s \<Rightarrow> Inr v | _ \<Rightarrow> Inl ValidationError)"
| "zod_parse (ZLiteral s) v = (if v = VStr s then Inr v else Inl ValidationError)"
| "zod_parse ZDateTime v = (case v of VStr s \<Rightarrow> Inr (VDate s) | _ \<Rightarrow> Inl ValidationError)"
| "zod_parse (ZOptional z) v = (if v = VUndefined then Inr VUndefined else zod_parse z v)"
| "zod_parse (ZObject shape) v =
     (case v of
        VObj data \<Rightarrow>
          (case sequence (map (\<lambda>kz. zod_parse (snd kz) (get data (fst kz))) shape) of
             Inl e \<Rightarrow> Inl e
           | Inr rs \<Rightarrow>
               Inr (VObj (filter (\<lambda>kr. snd kr \<noteq> VUndefined \<or> map_of data (fst kr) \<noteq> None)
                            (zip (map fst shape) rs))))
      | _ \<Rightarrow> Inl ValidationError)"
| "zod_parse (ZArray element minLength maxLength) v =
     (case v of
        VArr xs \<Rightarrow>
          (if \<not> lengthOk minLength maxLength (length xs) then Inl ValidationError
           else case sequence (map (zod_parse element) xs) of
                  Inl e \<Rightarrow> Inl e
                | Inr ys \<Rightarrow> Inr (VArr ys))
      | _ \<Rightarrow> Inl ValidationError)"
| "zod_parse (ZUnion options) v = firstValid (map (\<lambda>option. zod_parse option v) options)"

definition accepts :: "zod \<Rightarrow> val \<Rightarrow> bool" where
  "accepts z v = (case zod_parse z v of Inl e \<Rightarrow> False | Inr out \<Rightarrow> True)"

text \<open>
  \<open>object.extend(augmentation)\<close>: the shape \<open>{...shape, ...augmentation}\<close>. It is a method of
  object schemas only, so it takes the shape.
\<close>

definition zod_extend :: "(string \<times> zod) list \<Rightarrow> (string \<times> zod) list \<Rightarrow> zod" where
  "zod_extend shape augmentation = ZObject (spread shape augmentation)"

text \<open>
  The length methods of an array schema. Each of \<open>min\<close> and \<open>max\<close> sets its bound,
  replacing an earlier one; \<open>nonempty()\<close> is \<open>min(1)\<close>; \<open>length(n)\<close> sets both bounds to
  \<open>n\<close>, so an exact length takes precedence over bounds set before it. They are methods of
  array schemas only; on another schema the model leaves the schema as it is, a case no
  builder reaches, since an item set's schema is an array schema.
\<close>

fun zod_min :: "int \<Rightarrow> zod \<Rightarrow> zod" where
  "zod_min n (ZArray element minLength maxLength) = ZArray element (Some n) maxLength"
| "zod_min n z = z"

fun zod_max :: "int \<Rightarrow> zod \<Rightarrow> zod" where
  "zod_max n (ZArray element minLength maxLength) = ZArray element minLength (Some n)"
| "zod_max n z = z"

definition zod_nonempty :: "zod \<Rightarrow> zod" where
  "zod_nonempty z = zod_min 1 z"

definition zod_length :: "int \<Rightarrow> zod \<Rightarrow> zod" where
  "zod_length n z = zod_max n (zod_min n z)"

section \<open>Descriptors\<close>

text \<open>
  The validation-rule builder of the content-management system is external. A rule is
  modelled by the calls made on it so far, in order; each method appends its call.
\<close>

datatype rule_call = RuleRequired | RuleMin int | RuleMax int | RuleLength int | RuleCustom string

type_synonym rule = "rule_call list"

definition rule_min :: "int \<Rightarrow> rule \<Rightarrow> rule" where
  "rule_min n r = r @ [RuleMin n]"

definition rule_max :: "int \<Rightarrow> rule \<Rightarrow> rule" where
  "rule_max n r = r @ [RuleMax n]"

definition rule_length :: "int \<Rightarrow> rule \<Rightarrow> rule" where
  "rule_length n r = r @ [RuleLength n]"

text \<open>A descriptor is a plain record of strings, booleans, lists, records and rule functions.\<close>

datatype sval =
    SUndefined
  | SStr string
  | SBool bool
  | SList "sval list"
  | SObj "(string \<times> sval) list"
  | SValidation "rule \<Rightarrow> rule"

definition property :: "sval \<Rightarrow> string \<Rightarrow> sval" where
  "property d k =
     (case d of
        SObj kvs \<Rightarrow> (case map_of kvs k of None \<Rightarrow> SUndefined | Some v \<Rightarrow> v)
      | _ \<Rightarrow> SUndefined)"

section \<open>Arrays of the heap\<close>

text \<open>
  The builders hold JavaScript arrays by reference. A store is the list of the arrays
  allocated so far, an array reference is an index into it. An array literal
  \<open>[...xs, x]\<close> allocates; nothing in the sources writes to an existing array. An index
  that was never allocated reads as the empty list; the theorems that read the store after
  a call take their references below its length.
\<close>

type_synonym 'a store = "'a list list"

definition alloc :: "'a list \<Rightarrow> 'a store \<Rightarrow> nat \<times> 'a store" where
  "alloc xs s = (length s, s @ [xs])"

definition deref :: "'a store \<Rightarrow> nat \<Rightarrow> 'a list" where
  "deref s a = (if a < length s then s ! a else [])"

section \<open>Nodes\<close>

text \<open>
  \<open>SanityType<Definition, Zod>\<close>: the descriptor producer, the mock producer, the parser and
  the schema. \<open>'d\<close> is what calling \<open>schema()\<close> yields: the descriptor itself when the
  closure reads no array, a function of the store when it does.
  A generator is identified by the path it was seeded with.
\<close>

type_synonym faker = string

record 'd sanity_type =
  schema :: "'d"
  mock :: "string \<Rightarrow> val"
  parse :: "val \<Rightarrow> error + val"
  zod :: zod

definition createFaker :: "string \<Rightarrow> faker" where
  "createFaker path = path"

text \<open>
  Modelled from the spec: \<open>createType\<close> of \<open>../types\<close>, which is not among the sources.
  By the node contract (4.1) every builder exposes the descriptor producer it was given,
  a parser that is its schema's parse, and a mock producer that is deterministic in the
  structural path: the builder's \<open>mock(faker, path)\<close> is called with the generator seeded
  by \<open>path\<close>. The builders of the sources that do not call \<open>createType\<close> (\<open>reference\<close>,
  \<open>text\<close>) return the same members, with \<open>parse: zod.parse.bind(zod)\<close>.
\<close>

definition createType :: "(faker \<Rightarrow> string \<Rightarrow> val) \<Rightarrow> zod \<Rightarrow> 'd \<Rightarrow> 'd sanity_type" where
  "createType mock' zod' schema' =
     \<lparr> schema = schema',
       mock = (\<lambda>path. mock' (createFaker path) path),
       parse = zod_parse zod',
       zod = zod' \<rparr>"

section \<open>Item sets and arrays\<close>

text \<open>
  \<open>addKeyToZod\<close>: an object schema is extended with the \<open>_key\<close> string, any other schema
  is returned as it is.
\<close>

definition addKeyToZod :: "zod \<Rightarrow> zod" where
  "addKeyToZod zod' =
     (case zod' of
        ZObject shape \<Rightarrow> zod_extend shape [(''_key'', ZString)]
      | _ \<Rightarrow> zod')"

text \<open>An item is a node whose descriptor producer reads no array.\<close>

type_synonym item = "sval sanity_type"

record items_type = "(item store \<Rightarrow> sval list) sanity_type" +
  items :: nat

text \<open>The schema \<open>itemsInternal\<close> builds from the items it is called with.\<close>

definition itemsZod :: "item list \<Rightarrow> zod" where
  "itemsZod its =
     ZArray
       (if length its = 0 then ZNever
        else if length its = 1 then addKeyToZod (zod (its ! 0))
        else ZUnion
               ([addKeyToZod (zod (its ! 0)), addKeyToZod (zod (its ! 1))]
                @ map (\<lambda>it. addKeyToZod (zod it)) (drop 2 its)))
       None None"

text \<open>
  \<open>itemsInternal(items)\<close>: the schema is built at once from the array \<open>items\<close> refers to, the
  descriptor producer reads the array when it is called, the mock producer returns the
  empty array.
\<close>

definition itemsInternal :: "nat \<Rightarrow> item store \<Rightarrow> items_type" where
  "itemsInternal items' s =
     (let t = createType (\<lambda>faker path. VArr [])
                (itemsZod (deref s items'))
                (\<lambda>s'. map schema (deref s' items'))
      in \<lparr> schema = schema t, mock = mock t, parse = parse t, zod = zod t, items = items' \<rparr>)"

text \<open>The method \<open>item\<close> of an item set: \<open>itemsInternal([...items, item])\<close>.\<close>

definition itemsInternal_item :: "items_type \<Rightarrow> item \<Rightarrow> item store \<Rightarrow> items_type \<times> item store" where
  "itemsInternal_item its it s =
     (let (a, s') = alloc (deref s (items its) @ [it]) s in (itemsInternal a s', s'))"

text \<open>The exported \<open>item\<close>: \<open>itemsInternal([item])\<close>.\<close>

definition item :: "item \<Rightarrow> item store \<Rightarrow> items_type \<times> item store" where
  "item it s = (let (a, s') = alloc [it] s in (itemsInternal a s', s'))"

record array_args =
  array_length :: "int option"
  array_max :: "int option"
  array_min :: "int option"
  array_nonempty :: bool
  array_of :: items_type
  array_mock :: "(faker \<Rightarrow> string \<Rightarrow> val) option"
  array_validation :: "(rule \<Rightarrow> rule) option"
  array_def :: "(string \<times> sval) list"

text \<open>
  \<open>array\<close>. The cardinalities are JavaScript numbers, modelled as integers. The default
  mock producer is the item set's, called with the generator in the place of its path.
  \<open>validation?.(rule) ?? rule\<close> applies the caller's rule when there is one.
\<close>

definition array :: "array_args \<Rightarrow> (item store \<Rightarrow> sval) sanity_type" where
  "array args =
     (let itemsSchema = schema (array_of args);
          itemsMock = mock (array_of args);
          itemsZod' = zod (array_of args);
          mock' = (case array_mock args of
                     None \<Rightarrow> (\<lambda>faker path. itemsMock faker)
                   | Some m \<Rightarrow> m)
      in createType mock'
           (flow
              [\<lambda>zod'. if \<not> array_nonempty args then zod' else zod_nonempty zod',
               unlessFalsy (array_min args) zod_min,
               unlessFalsy (array_max args) zod_max,
               unlessUndefined (array_length args) zod_length]
              itemsZod')
           (\<lambda>s. SObj
              (spread (array_def args)
                 [(''type'', SStr ''array''),
                  (''of'', SList (itemsSchema s)),
                  (''validation'',
                   SValidation
                     (flow
                        [\<lambda>rule'. if \<not> array_nonempty args then rule' else rule_min 1 rule',
                         unlessFalsy (array_min args) rule_min,
                         unlessFalsy (array_max args) rule_max,
                         unlessUndefined (array_length args) rule_length,
                         \<lambda>rule'. (case array_validation args of
                                     None \<Rightarrow> rule'
                                   | Some validation \<Rightarrow> validation rule')]))])))"

section \<open>Named objects\<close>

text \<open>
  A field set (\<open>FieldsType\<close> of \<open>../field\<close>) is taken as given: its descriptor fragments,
  its mock producer, which returns a record, and the shape of its schema, which is an object
  schema.
\<close>

record fields_type =
  fields_schema :: "sval list"
  fields_mock :: "string \<Rightarrow> (string \<times> val) list"
  fields_shape :: "(string \<times> zod) list"

record objectNamed_args =
  objectNamed_name :: string
  objectNamed_preview :: sval
  objectNamed_fields :: fields_type
  objectNamed_mock :: "(faker \<Rightarrow> string \<Rightarrow> val) option"
  objectNamed_def :: "(string \<times> sval) list"

record objectNamed_type = "sval sanity_type" +
  ref :: "sval sanity_type"

text \<open>
  \<open>objectNamed\<close>. The helper \<open>preview\<close> of \<open>../field\<close> is not among the sources and is a
  parameter.
\<close>

definition objectNamed :: "(sval \<Rightarrow> sval list \<Rightarrow> sval) \<Rightarrow> objectNamed_args \<Rightarrow> objectNamed_type" where
  "objectNamed preview args =
     (let name = objectNamed_name args;
          previewDef = objectNamed_preview args;
          fieldsSchema = fields_schema (objectNamed_fields args);
          fieldsMock = fields_mock (objectNamed_fields args);
          mock' = (case objectNamed_mock args of
                     None \<Rightarrow> (\<lambda>faker path. VObj (spread (fieldsMock path) [(''_type'', VStr name)]))
                   | Some m \<Rightarrow> m);
          zod' = zod_extend (fields_shape (objectNamed_fields args)) [(''_type'', ZLiteral name)];
          t = createType mock' zod'
                (let schemaForFields = fieldsSchema
                 in SObj
                      (spread (objectNamed_def args)
                         [(''name'', SStr name),
                          (''type'', SStr ''object''),
                          (''fields'', SList schemaForFields),
                          (''preview'', preview previewDef schemaForFields)]))
      in \<lparr> schema = schema t, mock = mock t, parse = parse t, zod = zod t,
           ref = createType mock' zod' (SObj [(''type'', SStr name)]) \<rparr>)"

section \<open>Documents and references\<close>

record document_type = "sval sanity_type" +
  document_name :: string

text \<open>
  Modelled from the spec: the \<open>document\<close> builder, of which the sources hold only the
  tests. A document is built from a declared name and a field set (4.5); to what the field
  set parses and mocks it adds the four identity fields and the type tag (3): the id and
  the revision token are strings, the creation and last-update timestamps are wire strings
  that parse into dates, the type tag is the literal declared name. They are held under
  the property names of the tests: \<open>_id\<close>, \<open>_rev\<close>, \<open>_createdAt\<close>, \<open>_updatedAt\<close>,
  \<open>_type\<close>. The additions are independent of any field the caller names. The descriptor has the name, the type
  \<open>document\<close> and the field list. The generated identity values come from the mock adapter,
  a parameter.
\<close>

definition document :: "(faker \<Rightarrow> (string \<times> val) list) \<Rightarrow> string \<Rightarrow> fields_type \<Rightarrow> document_type" where
  "document identity name fields' =
     (let t = createType
                (\<lambda>faker path.
                   VObj (spread (fields_mock fields' path)
                           (spread (identity faker) [(''_type'', VStr name)])))
                (zod_extend (fields_shape fields')
                   [(''_createdAt'', ZDateTime),
                    (''_id'', ZString),
                    (''_rev'', ZString),
                    (''_type'', ZLiteral name),
                    (''_updatedAt'', ZDateTime)])
                (SObj [(''name'', SStr name),
                       (''type'', SStr ''document''),
                       (''fields'', SList (fields_schema fields'))])
      in \<lparr> schema = schema t, mock = mock t, parse = parse t, zod = zod t,
           document_name = name \<rparr>)"

text \<open>
  A reference node: its schema, its parser, its descriptor producer, and the two values
  its closures hold, the caller's definition and the array of target documents.
\<close>

record reference_type =
  reference_zod :: zod
  reference_parse :: "val \<Rightarrow> error + val"
  reference_schema :: "document_type store \<Rightarrow> sval"
  reference_def :: "(string \<times> sval) list"
  reference_documents :: nat

definition referenceInternal :: "(string \<times> sval) list \<Rightarrow> nat \<Rightarrow> reference_type" where
  "referenceInternal def documents =
     (let zod' = ZObject
                   [(''_ref'', ZString),
                    (''_type'', ZLiteral ''reference''),
                    (''_weak'', ZOptional ZBoolean)]
      in \<lparr> reference_zod = zod',
           reference_parse = zod_parse zod',
           reference_schema =
             (\<lambda>s. SObj
                (spread def
                   [(''type'', SStr ''reference''),
                    (''to'',
                     SList (map (\<lambda>d. SObj [(''type'', SStr (document_name d))])
                              (deref s documents)))])),
           reference_def = def,
           reference_documents = documents \<rparr>)"

text \<open>The method \<open>to\<close>: \<open>referenceInternal(def, [...documents, document])\<close>.\<close>

definition to :: "reference_type \<Rightarrow> document_type \<Rightarrow> document_type store \<Rightarrow> reference_type \<times> document_type store" where
  "to r document' s =
     (let (a, s') = alloc (deref s (reference_documents r) @ [document']) s
      in (referenceInternal (reference_def r) a, s'))"

text \<open>The exported \<open>reference\<close>: \<open>referenceInternal(def, [])\<close>.\<close>

definition reference :: "(string \<times> sval) list \<Rightarrow> document_type store \<Rightarrow> reference_type \<times> document_type store" where
  "reference def s = (let (a, s') = alloc [] s in (referenceInternal def a, s'))"

text \<open>A sequence of \<open>to\<close> calls, each on the node the call before returned.\<close>

fun to_all :: "document_type list \<Rightarrow> reference_type \<times> document_type store \<Rightarrow> reference_type \<times> document_type store" where
  "to_all [] rs = rs"
| "to_all (d # ds) rs = to_all ds (to (fst rs) d (snd rs))"

section \<open>Observations\<close>

text \<open>
  What the theorems observe of a value, of a schema and of a descriptor: the property
  \<open>v[k]\<close> of a value, the two length bounds of an array schema, the \<open>to\<close> list of a
  descriptor, and the calls its \<open>validation\<close> makes on a fresh rule.
\<close>

definition fieldOf :: "val \<Rightarrow> string \<Rightarrow> val" where
  "fieldOf v k = (case v of VObj data \<Rightarrow> get data k | _ \<Rightarrow> VUndefined)"



definition descriptor_to :: "sval \<Rightarrow> sval list" where
  "descriptor_to d = (case property d ''to'' of SList targets \<Rightarrow> targets | _ \<Rightarrow> [])"

definition validationCalls :: "sval \<Rightarrow> rule" where
  "validationCalls d = (case property d ''validation'' of SValidation f \<Rightarrow> f [] | _ \<Rightarrow> [])"

section \<open>Example nodes\<close>

text \<open>
  Nodes the theorems are tried on: a bare boolean item, an item with an object schema, an
  item whose schema is a union of two object schemas, array arguments with no cardinality
  constraint, and the field set, the named object, the
  document and the document value of the tests (\<open>name: "foo"\<close>, one required boolean field
  \<open>foo\<close>).
\<close>

definition booleanItem :: item where
  "booleanItem =
     createType (\<lambda>faker path. VBool True) ZBoolean (SObj [(''type'', SStr ''boolean'')])"

definition helloItem :: item where
  "helloItem =
     createType (\<lambda>faker path. VObj [(''hello'', VStr ''world'')])
       (ZObject [(''hello'', ZString)])
       (SObj [(''type'', SStr ''object'')])"

definition recordUnionItem :: item where
  "recordUnionItem =
     createType (\<lambda>faker path. VObj [(''hello'', VStr ''world'')])
       (ZUnion [ZObject [(''hello'', ZString)], ZObject [(''bye'', ZString)]])
       (SObj [(''type'', SStr ''object'')])"

definition noConstraints :: "items_type \<Rightarrow> array_args" where
  "noConstraints its =
     \<lparr> array_length = None, array_max = None, array_min = None, array_nonempty = False,
       array_of = its, array_mock = None, array_validation = None, array_def = [] \<rparr>"

definition fooFields :: fields_type where
  "fooFields =
     \<lparr> fields_schema =
         [SObj [(''name'', SStr ''foo''), (''type'', SStr ''boolean''),
                (''validation'', SValidation (\<lambda>rule'. rule' @ [RuleRequired]))]],
       fields_mock = (\<lambda>path. [(''foo'', VBool True)]),
       fields_shape = [(''foo'', ZBoolean)] \<rparr>"

definition fooArgs :: objectNamed_args where
  "fooArgs =
     \<lparr> objectNamed_name = ''foo'', objectNamed_preview = SUndefined,
       objectNamed_fields = fooFields, objectNamed_mock = None, objectNamed_def = [] \<rparr>"

definition fooIdentity :: "faker \<Rightarrow> (string \<times> val) list" where
  "fooIdentity faker =
     [(''_createdAt'', VStr ''2022-06-03T03:24:55.395Z''),
      (''_id'', VStr ''2106a34f-315f-44bc-929b-bf8e9a3eba0d''),
      (''_rev'', VStr ''somerevstring''),
      (''_updatedAt'', VStr ''2022-06-03T03:24:55.395Z'')]"

definition fooDocument :: document_type where
  "fooDocument = document fooIdentity ''foo'' fooFields"



section \<open>Properties of the validation library\<close>

lemma error_eq: "(e :: error) = e'"
  by (cases e, cases e') simp

lemma sequence_map_Inr [simp]: "sequence (map Inr xs) = Inr xs"
  by (induction xs) auto

lemma sequence_Inr_iff: "sequence rs = Inr xs \<longleftrightarrow> rs = map Inr xs"
proof
  show "sequence rs = Inr xs \<Longrightarrow> rs = map Inr xs"
    by (induction rs arbitrary: xs rule: sequence.induct) (auto split: sum.splits)
qed simp

lemma sequence_Inl_iff: "sequence rs = Inl e \<longleftrightarrow> (\<exists>r\<in>set rs. isl r)"
  by (induction rs rule: sequence.induct) (auto split: sum.splits intro: error_eq)


lemma accepts_iff: "accepts z v \<longleftrightarrow> (\<exists>out. zod_parse z v = Inr out)"
  by (auto simp: accepts_def split: sum.splits)

lemma not_accepts_iff: "\<not> accepts z v \<longleftrightarrow> zod_parse z v = Inl ValidationError"
  by (cases "zod_parse z v") (auto simp: accepts_def intro: error_eq)

lemma isl_parse: "isl (zod_parse z v) \<longleftrightarrow> \<not> accepts z v"
  by (cases "zod_parse z v") (auto simp: accepts_def)


lemma accepts_ZArray:
  "accepts (ZArray e mn mx) v \<longleftrightarrow>
     (\<exists>xs. v = VArr xs \<and> lengthOk mn mx (length xs) \<and> (\<forall>x\<in>set xs. accepts e x))"
proof (cases v)
  case (VArr xs)
  have "(\<exists>ys. sequence (map (zod_parse e) xs) = Inr ys) \<longleftrightarrow> (\<forall>x\<in>set xs. accepts e x)"
  proof -
    have "(\<exists>ys. sequence (map (zod_parse e) xs) = Inr ys)
            \<longleftrightarrow> \<not> (sequence (map (zod_parse e) xs) = Inl ValidationError)"
      by (cases "sequence (map (zod_parse e) xs)") (auto intro: error_eq)
    also have "\<dots> \<longleftrightarrow> (\<forall>x\<in>set xs. accepts e x)"
      unfolding sequence_Inl_iff by (auto simp: isl_parse)
    finally show ?thesis .
  qed
  then show ?thesis
    using VArr by (auto simp: accepts_iff split: sum.splits)
qed (simp_all add: accepts_def)

lemma map_eq_map_Inr: "map f xs = map Inr ys \<longleftrightarrow> list_all2 (\<lambda>x y. f x = Inr y) xs ys"
  by (induction xs arbitrary: ys) (auto simp: list_all2_Cons1)

lemma parse_ZArray_Inr:
  "zod_parse (ZArray e mn mx) v = Inr out \<longleftrightarrow>
     (\<exists>xs ys. v = VArr xs \<and> out = VArr ys \<and> lengthOk mn mx (length xs) \<and>
        list_all2 (\<lambda>x y. zod_parse e x = Inr y) xs ys)"
proof (cases v)
  case (VArr xs)
  have "zod_parse (ZArray e mn mx) (VArr xs) = Inr out \<longleftrightarrow>
          lengthOk mn mx (length xs) \<and>
          (\<exists>ys. sequence (map (zod_parse e) xs) = Inr ys \<and> out = VArr ys)"
    by (cases "sequence (map (zod_parse e) xs)") auto
  then show ?thesis
    unfolding VArr sequence_Inr_iff map_eq_map_Inr by auto
qed simp_all

lemma map_of_fold_update:
  "map_of (fold (\<lambda>(k, v). AList.update k v) b a) k =
     (case map_of (rev b) k of Some v \<Rightarrow> Some v | None \<Rightarrow> map_of a k)"
  by (induction b arbitrary: a) (auto simp: update_conv' map_add_def split: option.splits)

lemma map_of_spread:
  "map_of (spread a b) k = (case map_of (rev b) k of Some v \<Rightarrow> Some v | None \<Rightarrow> map_of a k)"
  unfolding spread_def by (rule map_of_fold_update)

text \<open>
  A successful object parse has parsed the property of every key of the shape with that
  key's schema, and its output has the result under the key when it is not \<open>undefined\<close>.
\<close>

lemma object_results:
  "map (\<lambda>kz. zod_parse (snd kz) (get data (fst kz))) shape = map Inr rs \<Longrightarrow>
   map_of shape k = Some z \<Longrightarrow>
   \<exists>r. zod_parse z (get data k) = Inr r \<and>
       (r \<noteq> VUndefined \<longrightarrow>
        map_of (filter (\<lambda>kr. snd kr \<noteq> VUndefined \<or> map_of data (fst kr) \<noteq> None)
                  (zip (map fst shape) rs)) k = Some r)"
proof (induction shape arbitrary: rs)
  case Nil
  then show ?case by simp
next
  case (Cons kz shape)
  then obtain r rs' where rs: "rs = r # rs'" by (cases rs) auto
  show ?case
  proof (cases "fst kz = k")
    case True
    with Cons.prems rs show ?thesis by (cases kz) auto
  next
    case False
    with Cons.prems rs have "map_of shape k = Some z" by (cases kz) auto
    moreover from Cons.prems rs
    have "map (\<lambda>kz. zod_parse (snd kz) (get data (fst kz))) shape = map Inr rs'" by simp
    ultimately show ?thesis
      using Cons.IH[of rs'] False rs by auto
  qed
qed

lemma parse_ZObject_field:
  assumes "zod_parse (ZObject shape) v = Inr out" and "map_of shape k = Some z"
  shows "\<exists>data m r. v = VObj data \<and> out = VObj m \<and> zod_parse z (get data k) = Inr r \<and>
           (r \<noteq> VUndefined \<longrightarrow> map_of m k = Some r)"
proof -
  from assms(1) obtain data where v: "v = VObj data"
    by (cases v) auto
  from assms(1) v obtain rs where
    rs: "sequence (map (\<lambda>kz. zod_parse (snd kz) (get data (fst kz))) shape) = Inr rs"
    and out: "out = VObj (filter (\<lambda>kr. snd kr \<noteq> VUndefined \<or> map_of data (fst kr) \<noteq> None)
                            (zip (map fst shape) rs))"
    by (auto split: sum.splits)
  from rs have "map (\<lambda>kz. zod_parse (snd kz) (get data (fst kz))) shape = map Inr rs"
    by (simp add: sequence_Inr_iff)
  from object_results[OF this assms(2)] v out show ?thesis by auto
qed


lemma fieldOf_ZLiteral:
  assumes "zod_parse (ZObject shape) v = Inr out" and "map_of shape k = Some (ZLiteral n)"
  shows "fieldOf v k = VStr n \<and> fieldOf out k = VStr n"
proof -
  from parse_ZObject_field[OF assms] obtain data m r where
    *: "v = VObj data" "out = VObj m" "zod_parse (ZLiteral n) (get data k) = Inr r"
       "r \<noteq> VUndefined \<longrightarrow> map_of m k = Some r"
    by blast
  from *(3) have "get data k = VStr n" "r = VStr n"
    by (auto split: if_splits)
  with * show ?thesis by (auto simp: fieldOf_def get_def)
qed





lemma property_spread:
  "property (SObj (spread a b)) k =
     (case map_of (rev b) k of Some v \<Rightarrow> v | None \<Rightarrow> property (SObj a) k)"
  by (simp add: property_def map_of_spread split: option.splits)

section \<open>Properties of the store\<close>

lemma deref_alloc_new [simp]: "deref (snd (alloc xs s)) (fst (alloc xs s)) = xs"
  by (simp add: alloc_def deref_def)

lemma deref_alloc_old [simp]: "a < length s \<Longrightarrow> deref (snd (alloc xs s)) a = deref s a"
  by (simp add: alloc_def deref_def nth_append)

section \<open>Properties of item sets and arrays\<close>

lemma itemsInternal_sel [simp]:
  "zod (itemsInternal a s) = itemsZod (deref s a)"
  "schema (itemsInternal a s) s' = map schema (deref s' a)"
  "items (itemsInternal a s) = a"
  "mock (itemsInternal a s) path = VArr []"
  by (simp_all add: itemsInternal_def createType_def Let_def)

lemma itemsInternal_item_eq:
  "itemsInternal_item its it t =
     (itemsInternal (fst (alloc (deref t (items its) @ [it]) t))
        (snd (alloc (deref t (items its) @ [it]) t)),
      snd (alloc (deref t (items its) @ [it]) t))"
  by (simp add: itemsInternal_item_def split_beta)

lemma parse_array [simp]: "parse (array args) = zod_parse (zod (array args))"
  by (simp add: array_def createType_def Let_def)

text \<open>The schema of an array node: the item set's element schema under the bounds the
  arguments set.\<close>

lemma array_zod_explicit:
  assumes "zod (array_of args) = ZArray e None None"
  shows "zod (array args) =
     ZArray e
       (case array_length args of
          Some n \<Rightarrow> Some n
        | None \<Rightarrow>
            (case array_min args of
               Some m \<Rightarrow> if m = 0 then (if array_nonempty args then Some 1 else None) else Some m
             | None \<Rightarrow> if array_nonempty args then Some 1 else None))
       (case array_length args of
          Some n \<Rightarrow> Some n
        | None \<Rightarrow>
            (case array_max args of
               Some m \<Rightarrow> if m = 0 then None else Some m
             | None \<Rightarrow> None))"
  using assms
  by (auto simp: array_def createType_def Let_def flow_def unlessFalsy_def unlessUndefined_def
        zod_nonempty_def zod_length_def split: option.splits)


text \<open>
  What an array node's parser does enforce of the declared cardinality: an exact length
  always, a minimum always, a maximum when it is not \<open>0\<close>.
\<close>

lemma array_length_constraints:
  assumes "zod (array_of args) = ZArray e None None"
    and "parse (array args) (VArr xs) = Inr out"
  shows "(\<forall>n. array_length args = Some n \<longrightarrow> int (length xs) = n)
       \<and> (array_length args = None \<longrightarrow>
            (\<forall>m. array_min args = Some m \<longrightarrow> m \<le> int (length xs))
          \<and> (\<forall>m. array_max args = Some m \<longrightarrow> m \<noteq> 0 \<longrightarrow> int (length xs) \<le> m))"
proof -
  from assms(2) have "zod_parse (zod (array args)) (VArr xs) = Inr out" by simp
  then show ?thesis
    unfolding array_zod_explicit[OF assms(1)] parse_ZArray_Inr
    by (auto simp: lengthOk_def split: option.splits if_splits)
qed

lemma itemsZod_none: "itemsZod [] = ZArray ZNever None None"
  by (simp add: itemsZod_def)






lemma recordUnionItem_records:
  assumes "zod_parse (zod recordUnionItem) v = Inr out"
  shows "\<exists>m. out = VObj m"
proof -
  have z: "zod recordUnionItem = ZUnion [ZObject [(''hello'', ZString)], ZObject [(''bye'', ZString)]]"
    by (simp add: recordUnionItem_def createType_def)
  from assms show ?thesis
    unfolding z by (cases v) (auto split: sum.splits if_splits)
qed

section \<open>Properties of references, named objects and documents\<close>

lemma referenceInternal_sel [simp]:
  "reference_documents (referenceInternal def a) = a"
  "reference_def (referenceInternal def a) = def"
  by (simp_all add: referenceInternal_def Let_def)

lemma reference_schema_referenceInternal:
  "reference_schema (referenceInternal def a) s =
     SObj (spread def
             [(''type'', SStr ''reference''),
              (''to'', SList (map (\<lambda>d. SObj [(''type'', SStr (document_name d))])
                               (deref s a)))])"
  by (simp add: referenceInternal_def Let_def)

lemma descriptor_to_referenceInternal [simp]:
  "descriptor_to (reference_schema (referenceInternal def a) s) =
     map (\<lambda>d. SObj [(''type'', SStr (document_name d))]) (deref s a)"
  by (simp add: reference_schema_referenceInternal descriptor_to_def property_spread)

lemma to_eq:
  "to r d s =
     (referenceInternal (reference_def r)
        (fst (alloc (deref s (reference_documents r) @ [d]) s)),
      snd (alloc (deref s (reference_documents r) @ [d]) s))"
  by (simp add: to_def split_beta)

lemma reference_eq:
  "reference def s = (referenceInternal def (fst (alloc [] s)), snd (alloc [] s))"
  by (simp add: reference_def split_beta)

lemma to_all_targets:
  "descriptor_to
     (reference_schema (fst (to_all ds (referenceInternal def a, s)))
        (snd (to_all ds (referenceInternal def a, s))))
     = map (\<lambda>d. SObj [(''type'', SStr (document_name d))]) (deref s a @ ds)"
proof (induction ds arbitrary: a s)
  case Nil
  then show ?case by simp
next
  case (Cons d ds)
  show ?case
    by (simp add: to_eq Cons.IH)
qed

lemma objectNamed_sel:
  "zod (objectNamed preview args) =
     zod_extend (fields_shape (objectNamed_fields args))
       [(''_type'', ZLiteral (objectNamed_name args))]"
  "parse (objectNamed preview args) = zod_parse (zod (objectNamed preview args))"
  "zod (ref (objectNamed preview args)) = zod (objectNamed preview args)"
  "parse (ref (objectNamed preview args)) = parse (objectNamed preview args)"
  "mock (ref (objectNamed preview args)) = mock (objectNamed preview args)"
  "schema (ref (objectNamed preview args)) = SObj [(''type'', SStr (objectNamed_name args))]"
  by (simp_all add: objectNamed_def createType_def Let_def)


section \<open>The claims\<close>

text \<open>
  C1. The claim: what a node's mock producer returns always satisfies the node's own
  parser, also for an array node built with \<open>nonempty\<close> or \<open>min\<close>. The code does
  otherwise. The mock producer of an item set returns the empty array whatever its items
  are (the source marks it \<open>FIXME Mock the array element types\<close>), and it is the default
  mock producer of the array node. So for every item, every store and every path, the
  default mock of an array node built with \<open>nonempty: true\<close> is the empty array and the
  node's parser rejects it; likewise with \<open>min: 1\<close>.
\<close>

theorem array_default_mock_rejected:
  "mock (array ((noConstraints (fst (item it s))) \<lparr> array_nonempty := True \<rparr>)) path = VArr []
   \<and> parse (array ((noConstraints (fst (item it s))) \<lparr> array_nonempty := True \<rparr>))
       (mock (array ((noConstraints (fst (item it s))) \<lparr> array_nonempty := True \<rparr>)) path)
     = Inl ValidationError
   \<and> parse (array ((noConstraints (fst (item it s))) \<lparr> array_min := Some 1 \<rparr>))
       (mock (array ((noConstraints (fst (item it s))) \<lparr> array_min := Some 1 \<rparr>)) path)
     = Inl ValidationError"
  by (simp add: noConstraints_def item_def alloc_def deref_def itemsInternal_def createType_def
        createFaker_def array_def flow_def unlessFalsy_def unlessUndefined_def Let_def
        itemsZod_def zod_nonempty_def lengthOk_def)

text \<open>
  C2, as amended. For every sequence of \<open>to(document)\<close> calls on a fresh reference node,
  the \<open>to\<close> list of the descriptor has one entry \<open>{type: name}\<close> for each call, in call
  order. The list is not deduplicated.
\<close>

theorem to_list_call_order:
  "descriptor_to
     (reference_schema (fst (to_all ds (reference def s))) (snd (to_all ds (reference def s))))
     = map (\<lambda>d. SObj [(''type'', SStr (document_name d))]) ds"
  by (simp add: reference_eq to_all_targets)

theorem to_list_call_order_witness:
  "descriptor_to
     (reference_schema (fst (to_all [fooDocument, fooDocument] (reference [] [])))
        (snd (to_all [fooDocument, fooDocument] (reference [] []))))
   = [SObj [(''type'', SStr ''foo'')], SObj [(''type'', SStr ''foo'')]]"
  using to_list_call_order[of "[fooDocument, fooDocument]" "[]" "[]"]
  by (simp add: fooDocument_def document_def Let_def)

text \<open>
  C2 as stated fails: after the same document is added twice, the \<open>to\<close> list of the
  descriptor holds its name twice.
\<close>

theorem to_list_not_deduplicated:
  "\<not> distinct
       (descriptor_to
          (reference_schema (fst (to_all [fooDocument, fooDocument] (reference [] [])))
             (snd (to_all [fooDocument, fooDocument] (reference [] [])))))"
  unfolding reference_eq to_all_targets by simp







text \<open>
  C5. The claim: an array node's parser fails whenever the length of the input violates
  the declared \<open>min\<close>, \<open>max\<close> or \<open>length\<close>, and the validation of the descriptor
  combines \<open>nonempty\<close> as a minimum of one with the three rules. The code does otherwise
  for \<open>max: 0\<close>: the guard \<open>!max\<close> takes \<open>0\<close> for an absent maximum, so an array of one
  element passes the parser and the descriptor's validation makes no \<open>max\<close> call. The guard
  of \<open>length\<close> tests \<open>=== undefined\<close>, and \<open>length: 0\<close> is enforced by both.
\<close>

theorem array_max_zero_not_enforced:
  "parse (array ((noConstraints (fst (item booleanItem []))) \<lparr> array_max := Some 0 \<rparr>))
     (VArr [VBool True]) = Inr (VArr [VBool True])
   \<and> validationCalls
       (schema (array ((noConstraints (fst (item booleanItem []))) \<lparr> array_max := Some 0 \<rparr>))
          (snd (item booleanItem []))) = []
   \<and> parse (array ((noConstraints (fst (item booleanItem []))) \<lparr> array_length := Some 0 \<rparr>))
     (VArr [VBool True]) = Inl ValidationError
   \<and> validationCalls
       (schema (array ((noConstraints (fst (item booleanItem []))) \<lparr> array_length := Some 0 \<rparr>))
          (snd (item booleanItem []))) = [RuleLength 0]"
  by (simp add: booleanItem_def noConstraints_def item_def alloc_def deref_def itemsInternal_def
        createType_def array_def flow_def unlessFalsy_def unlessUndefined_def Let_def
        itemsZod_def addKeyToZod_def zod_length_def lengthOk_def validationCalls_def
        property_def map_of_spread rule_length_def rule_max_def)

text \<open>
  C6. A named object node with declared name \<open>N\<close> over a field set: a raw value is parsed
  only when its \<open>_type\<close> is the string \<open>N\<close>, and the output then carries \<open>_type\<close> equal to
  \<open>N\<close>; the default mock is the field set's mock record extended with \<open>_type\<close> set to
  \<open>N\<close>; and the builder adds the tag itself, whatever the field set holds: the field list of
  the descriptor is the field set's own.
\<close>

theorem objectNamed_type_tag:
  "(parse (objectNamed preview args) v = Inr out \<longrightarrow>
      fieldOf v ''_type'' = VStr (objectNamed_name args) \<and>
      fieldOf out ''_type'' = VStr (objectNamed_name args))
   \<and> (objectNamed_mock args = None \<longrightarrow>
        mock (objectNamed preview args) path =
          VObj (spread (fields_mock (objectNamed_fields args) path)
                  [(''_type'', VStr (objectNamed_name args))]))
   \<and> property (schema (objectNamed preview args)) ''fields'' =
        SList (fields_schema (objectNamed_fields args))"
proof -
  have "fieldOf v ''_type'' = VStr (objectNamed_name args) \<and>
        fieldOf out ''_type'' = VStr (objectNamed_name args)"
    if "parse (objectNamed preview args) v = Inr out"
  proof -
    let ?shape = "spread (fields_shape (objectNamed_fields args))
                    [(''_type'', ZLiteral (objectNamed_name args))]"
    from that have "zod_parse (ZObject ?shape) v = Inr out"
      by (simp add: objectNamed_sel zod_extend_def)
    moreover have "map_of ?shape ''_type'' = Some (ZLiteral (objectNamed_name args))"
      by (simp add: map_of_spread)
    ultimately show ?thesis by (rule fieldOf_ZLiteral)
  qed
  moreover have "mock (objectNamed preview args) path =
          VObj (spread (fields_mock (objectNamed_fields args) path)
                  [(''_type'', VStr (objectNamed_name args))])"
    if "objectNamed_mock args = None"
    using that by (simp add: objectNamed_def createType_def Let_def)
  moreover have "property (schema (objectNamed preview args)) ''fields'' =
        SList (fields_schema (objectNamed_fields args))"
    by (simp add: objectNamed_def createType_def Let_def property_spread)
  ultimately show ?thesis by blast
qed

theorem objectNamed_type_tag_witness:
  "parse (objectNamed (\<lambda>previewDef fields'. previewDef) fooArgs)
     (VObj [(''_type'', VStr ''foo''), (''foo'', VBool True)])
     = Inr (VObj [(''foo'', VBool True), (''_type'', VStr ''foo'')])
   \<and> fieldOf (VObj [(''_type'', VStr ''foo''), (''foo'', VBool True)]) ''_type'' = VStr ''foo''
   \<and> fieldOf (VObj [(''foo'', VBool True), (''_type'', VStr ''foo'')]) ''_type'' = VStr ''foo''
   \<and> mock (objectNamed (\<lambda>previewDef fields'. previewDef) fooArgs) ''''
     = VObj [(''foo'', VBool True), (''_type'', VStr ''foo'')]
   \<and> parse (objectNamed (\<lambda>previewDef fields'. previewDef) fooArgs)
       (VObj [(''_type'', VStr ''bar''), (''foo'', VBool True)])
     = Inl ValidationError"
proof -
  note t = objectNamed_type_tag[of "\<lambda>previewDef fields'. previewDef" fooArgs
      "VObj [(''_type'', VStr ''foo''), (''foo'', VBool True)]"
      "VObj [(''foo'', VBool True), (''_type'', VStr ''foo'')]" "''''"]
  have p: "parse (objectNamed (\<lambda>previewDef fields'. previewDef) fooArgs)
     (VObj [(''_type'', VStr ''foo''), (''foo'', VBool True)])
     = Inr (VObj [(''foo'', VBool True), (''_type'', VStr ''foo'')])"
    by (simp add: fooArgs_def fooFields_def objectNamed_def createType_def Let_def
          zod_extend_def spread_def get_def)
  have q: "parse (objectNamed (\<lambda>previewDef fields'. previewDef) fooArgs)
       (VObj [(''_type'', VStr ''bar''), (''foo'', VBool True)])
     = Inl ValidationError"
    by (simp add: fooArgs_def fooFields_def objectNamed_def createType_def Let_def
          zod_extend_def spread_def get_def)
  have n: "objectNamed_mock fooArgs = None"
    by (simp add: fooArgs_def)
  have nm: "objectNamed_name fooArgs = ''foo''"
    by (simp add: fooArgs_def)
  have e: "spread (fields_mock (objectNamed_fields fooArgs) '''') [(''_type'', VStr ''foo'')]
             = [(''foo'', VBool True), (''_type'', VStr ''foo'')]"
    by (simp add: fooArgs_def fooFields_def spread_def)
  from t p have f: "fieldOf (VObj [(''_type'', VStr ''foo''), (''foo'', VBool True)]) ''_type''
                      = VStr (objectNamed_name fooArgs)
                  \<and> fieldOf (VObj [(''foo'', VBool True), (''_type'', VStr ''foo'')]) ''_type''
                      = VStr (objectNamed_name fooArgs)"
    by blast
  from t n have m: "mock (objectNamed (\<lambda>previewDef fields'. previewDef) fooArgs) ''''
     = VObj (spread (fields_mock (objectNamed_fields fooArgs) '''')
               [(''_type'', VStr (objectNamed_name fooArgs))])"
    by blast
  from p q f m show ?thesis
    unfolding nm e by blast
qed

text \<open>
  C7. For a named object node with name \<open>N\<close>, the node \<open>ref()\<close> returns has the
  descriptor \<open>{type: N}\<close> and the mock producer and the parser of the original node, so the
  two nodes parse every raw value to the same result.
\<close>

theorem objectNamed_ref:
  "schema (ref (objectNamed preview args)) = SObj [(''type'', SStr (objectNamed_name args))]
   \<and> mock (ref (objectNamed preview args)) = mock (objectNamed preview args)
   \<and> parse (ref (objectNamed preview args)) = parse (objectNamed preview args)
   \<and> zod (ref (objectNamed preview args)) = zod (objectNamed preview args)
   \<and> parse (ref (objectNamed preview args)) v = parse (objectNamed preview args) v"
  by (simp add: objectNamed_sel)

theorem objectNamed_ref_witness:
  "schema (ref (objectNamed (\<lambda>previewDef fields'. previewDef) fooArgs))
     = SObj [(''type'', SStr ''foo'')]
   \<and> parse (ref (objectNamed (\<lambda>previewDef fields'. previewDef) fooArgs))
       (VObj [(''_type'', VStr ''foo''), (''foo'', VBool True)])
     = Inr (VObj [(''foo'', VBool True), (''_type'', VStr ''foo'')])"
proof -
  have p: "parse (objectNamed (\<lambda>previewDef fields'. previewDef) fooArgs)
     (VObj [(''_type'', VStr ''foo''), (''foo'', VBool True)])
     = Inr (VObj [(''foo'', VBool True), (''_type'', VStr ''foo'')])"
    by (simp add: fooArgs_def fooFields_def objectNamed_def createType_def Let_def
          zod_extend_def spread_def get_def)
  have nm: "objectNamed_name fooArgs = ''foo''"
    by (simp add: fooArgs_def)
  from objectNamed_ref[of "\<lambda>previewDef fields'. previewDef" fooArgs
      "VObj [(''_type'', VStr ''foo''), (''foo'', VBool True)]"] p
  show ?thesis unfolding nm by simp
qed

text \<open>
  C8. The composition operations allocate and write to no existing array. For a reference
  node \<open>r\<close> and a document \<open>d\<close>, the node \<open>r.to(d)\<close> has the \<open>to\<close> list of \<open>r\<close> followed by
  \<open>d\<close>, and after the call the descriptor of \<open>r\<close> is what it was and every array of the
  store holds what it held. For an item set and an item, the item set \<open>its.item(it)\<close> has
  the descriptors of \<open>its\<close> followed by the descriptor of \<open>it\<close> and the schema of these
  items, and after the call the descriptors of \<open>its\<close> are what they were and every array
  of the store holds what it held.
\<close>

theorem composition_allocates:
  assumes "a < length s" and "r = referenceInternal def a"
    and "b < length t" and "its = itemsInternal b t0"
  shows "descriptor_to (reference_schema (fst (to r d s)) (snd (to r d s))) =
           descriptor_to (reference_schema r s) @ [SObj [(''type'', SStr (document_name d))]]
       \<and> reference_schema r (snd (to r d s)) = reference_schema r s
       \<and> (\<forall>c<length s. deref (snd (to r d s)) c = deref s c)
       \<and> schema (fst (itemsInternal_item its it t)) (snd (itemsInternal_item its it t)) =
           schema its t @ [schema it]
       \<and> zod (fst (itemsInternal_item its it t)) = itemsZod (deref t b @ [it])
       \<and> schema its (snd (itemsInternal_item its it t)) = schema its t
       \<and> (\<forall>c<length t. deref (snd (itemsInternal_item its it t)) c = deref t c)"
  using assms
  by (simp add: to_eq itemsInternal_item_eq reference_schema_referenceInternal descriptor_to_def
        property_spread)

theorem composition_allocates_witness:
  "descriptor_to
     (reference_schema (fst (to (fst (reference [] [])) fooDocument (snd (reference [] []))))
        (snd (to (fst (reference [] [])) fooDocument (snd (reference [] [])))))
     = [SObj [(''type'', SStr ''foo'')]]
   \<and> descriptor_to
       (reference_schema (fst (reference [] []))
          (snd (to (fst (reference [] [])) fooDocument (snd (reference [] [])))))
     = []
   \<and> schema
       (fst (itemsInternal_item (fst (item booleanItem [])) helloItem (snd (item booleanItem []))))
       (snd (itemsInternal_item (fst (item booleanItem [])) helloItem (snd (item booleanItem []))))
     = [SObj [(''type'', SStr ''boolean'')], SObj [(''type'', SStr ''object'')]]
   \<and> schema (fst (item booleanItem []))
       (snd (itemsInternal_item (fst (item booleanItem [])) helloItem (snd (item booleanItem []))))
     = [SObj [(''type'', SStr ''boolean'')]]"
proof -
  have r: "reference [] [] = (referenceInternal [] 0, [[]])"
    by (simp add: reference_eq alloc_def)
  have i: "item booleanItem [] = (itemsInternal 0 [[booleanItem]], [[booleanItem]])"
    by (simp add: item_def alloc_def)
  have h1: "0 < length ([[]] :: document_type store)" by simp
  have h3: "0 < length [[booleanItem]]" by simp
  from composition_allocates[OF h1 refl h3 refl, of "[]" fooDocument "[[booleanItem]]" helloItem]
  show ?thesis
    unfolding r i
    by (simp add: deref_def fooDocument_def document_def Let_def booleanItem_def helloItem_def
          createType_def)
qed



text \<open>
  C10. An array node built with no cardinality constraint from an item set with no item:
  the element schema is \<open>z.never()\<close>, the empty array is parsed to the empty array, and
  no other value is parsed.
\<close>

theorem empty_item_set:
  assumes "deref s a = []" and "array_of args = itemsInternal a s"
    and "array_length args = None" and "array_max args = None" and "array_min args = None"
    and "\<not> array_nonempty args"
  shows "zod (array args) = ZArray ZNever None None
       \<and> parse (array args) (VArr []) = Inr (VArr [])
       \<and> ((\<exists>out. parse (array args) v = Inr out) \<longleftrightarrow> v = VArr [])"
proof -
  from assms have z: "zod (array args) = ZArray ZNever None None"
    by (simp add: array_def createType_def Let_def flow_def unlessFalsy_def unlessUndefined_def
          itemsZod_none)
  have "accepts (ZArray ZNever None None) v \<longleftrightarrow> v = VArr []"
    unfolding accepts_ZArray by (auto simp: lengthOk_def accepts_def)
  with z show ?thesis by (simp add: accepts_iff lengthOk_def)
qed

theorem empty_item_set_witness:
  "parse (array (noConstraints (itemsInternal 0 [[]]))) (VArr []) = Inr (VArr [])
   \<and> ((\<exists>out. parse (array (noConstraints (itemsInternal 0 [[]]))) (VArr [VBool True]) = Inr out)
        = False)"
proof -
  have "deref [[]] 0 = ([] :: item list)" by (simp add: deref_def)
  from empty_item_set[OF this, of "noConstraints (itemsInternal 0 [[]])" "VArr [VBool True]"]
       empty_item_set[OF this, of "noConstraints (itemsInternal 0 [[]])" "VArr []"]
  show ?thesis by (simp add: noConstraints_def)
qed

end
